theory Spec2Isabelle
  imports
    Complex_Main
    "HOL-Library.Char_ord"
    "HOL-Library.List_Lexorder"
    "HOL-Library.Product_Lexorder"
begin

text \<open>
  The order endpoints of the campus food-ordering server (\<open>index.js\<close>): creating an
  order, listing orders, updating an order's status and the listing for a restaurant,
  with the two middlewares in front of them. Each handler is a function from what the
  request carries and the state of the collections to a reply and the new state.
\<close>

section \<open>Values\<close>

text \<open>
  Request bodies, Firestore profiles and MongoDB documents are JavaScript values. The
  model has one type for them. \<open>JUndefined\<close> is the value of an absent property,
  \<open>JOid\<close> a driver \<open>ObjectId\<close> (its 24 lower-case hexadecimal digits) and \<open>JDate\<close>
  a \<open>Date\<close> (milliseconds). A number is a double: \<open>JNum r\<close> is the finite double of
  value \<open>r\<close> (minus zero is not told from zero; no operation of this program does),
  \<open>JNaN\<close> is \<open>NaN\<close> and \<open>JInf\<close> the two infinities (\<open>True\<close> the positive one). Strings
  are lists of 8-bit code units. An object is its list of properties in insertion
  order.
\<close>

datatype json =
    JUndefined
  | JNull
  | JBool bool
  | JNum rat
  | JNaN
  | JInf bool
  | JStr string
  | JOid string
  | JDate int
  | JArr "json list"
  | JObj "(string \<times> json) list"

text \<open>Property access \<open>v.k\<close> (and \<open>v?.k\<close>) on a value that is not \<open>null\<close> or \<open>undefined\<close>;
  on those two, \<open>v?.k\<close> is \<open>undefined\<close> as well. Only own data properties are modelled.\<close>

fun field :: "json \<Rightarrow> string \<Rightarrow> json" where
  "field (JObj fs) k = (case map_of fs k of None \<Rightarrow> JUndefined | Some v \<Rightarrow> v)"
| "field _ k = JUndefined"

text \<open>Assignment \<open>o.k = v\<close>, also the effect of a later property in an object literal
  with a spread: an existing property keeps its place, a new one goes last.\<close>

fun set_field :: "string \<Rightarrow> json \<Rightarrow> (string \<times> json) list \<Rightarrow> (string \<times> json) list" where
  "set_field k v [] = [(k, v)]"
| "set_field k v ((k', v') # fs) =
     (if k' = k then (k, v) # fs else (k', v') # set_field k v fs)"

text \<open>\<open>Boolean(v)\<close>, the test of \<open>!v\<close>, \<open>v || w\<close> and \<open>v ? a : b\<close>.\<close>

fun truthy :: "json \<Rightarrow> bool" where
  "truthy JUndefined = False"
| "truthy JNull = False"
| "truthy (JBool b) = b"
| "truthy (JNum n) = (n \<noteq> 0)"
| "truthy JNaN = False"
| "truthy (JStr s) = (s \<noteq> [])"
| "truthy _ = True"

definition js_or :: "json \<Rightarrow> json \<Rightarrow> json" where
  "js_or a b = (if truthy a then a else b)"

text \<open>\<open>a ?? b\<close>.\<close>

definition nullish :: "json \<Rightarrow> json \<Rightarrow> json" where
  "nullish a b = (if a = JUndefined \<or> a = JNull then b else a)"

text \<open>\<open>a === b\<close> for two values that come from different sources (a parsed body, a
  loaded profile, a stored document, a route parameter): primitives are compared by
  type and value, \<open>NaN\<close> equals nothing, and two objects are never the same object.\<close>

fun strict_eq :: "json \<Rightarrow> json \<Rightarrow> bool" where
  "strict_eq JUndefined JUndefined = True"
| "strict_eq JNull JNull = True"
| "strict_eq (JBool a) (JBool b) = (a = b)"
| "strict_eq (JNum a) (JNum b) = (a = b)"
| "strict_eq (JInf a) (JInf b) = (a = b)"
| "strict_eq (JStr a) (JStr b) = (a = b)"
| "strict_eq _ _ = False"

fun isArray :: "json \<Rightarrow> bool" where
  "isArray (JArr xs) = True"
| "isArray _ = False"

fun elements :: "json \<Rightarrow> json list" where
  "elements (JArr xs) = xs"
| "elements _ = []"

section \<open>The runtime and the surroundings\<close>

text \<open>
  What a handler reads from outside the request: the two environment variables, the
  identity provider, the profile store (\<open>None\<close> when Firestore could not be
  initialised), the verification service, the validator installed on the orders
  collection (the provisioning script installs one; \<open>\<lambda>d. True\<close> is a collection
  without), and the functions of the JavaScript runtime that the model does not
  define: \<open>Number\<close> on a string, \<open>String\<close> on a number that is not a whole number of at
  most 53 bits and on a \<open>Date\<close>, the rounding of an exact result to the nearest double,
  and the text of \<open>JSON.stringify\<close>. The last field is what the driver and the server
  make of a cursor limit that is not a whole number of 64 bits: a count, or a failed
  call (\<open>None\<close>).
\<close>

datatype axios_reply = AxiosError | AxiosData json

datatype firestore_read = ReadFailed | NoDoc | Doc json

record env =
  RECAPTCHA_SECRET_KEY :: json
  mongoUri :: json
  verifyIdToken :: "string \<Rightarrow> json option"
  firestore :: "(json \<Rightarrow> firestore_read) option"
  siteverify :: "json \<Rightarrow> json \<Rightarrow> axios_reply"
  ordersValidator :: "json \<Rightarrow> bool"
  Number_string :: "string \<Rightarrow> json"
  String_number :: "rat \<Rightarrow> string"
  Date_string :: "int \<Rightarrow> string"
  round_double :: "rat \<Rightarrow> json"
  JSON_stringify :: "json \<Rightarrow> string"
  odd_limit :: "json \<Rightarrow> int option"

section \<open>Strings and numbers of the runtime\<close>

fun digits :: "nat \<Rightarrow> string" where
  "digits n = (if n < 10 then [char_of (48 + n)] else digits (n div 10) @ [char_of (48 + n mod 10)])"

definition show_int :: "int \<Rightarrow> string" where
  "show_int i = (if i < 0 then CHR ''-'' # digits (nat (- i)) else digits (nat i))"

fun intersperse :: "string \<Rightarrow> string list \<Rightarrow> string" where
  "intersperse sep [] = []"
| "intersperse sep [x] = x"
| "intersperse sep (x # y # ys) = x @ sep @ intersperse sep (y # ys)"

text \<open>A whole number of magnitude at most \<open>2^53\<close> is a double, and \<open>String\<close> prints it
  with all its digits.\<close>

definition safe_integer :: "rat \<Rightarrow> bool" where
  "safe_integer r = (r = of_int \<lfloor>r\<rfloor> \<and> \<bar>r\<bar> \<le> 2 ^ 53)"

text \<open>\<open>String(v)\<close>. An array is its elements joined by commas, \<open>null\<close> and
  \<open>undefined\<close> elements giving the empty string.\<close>

fun String_js :: "env \<Rightarrow> json \<Rightarrow> string" where
  "String_js e JUndefined = ''undefined''"
| "String_js e JNull = ''null''"
| "String_js e (JBool b) = (if b then ''true'' else ''false'')"
| "String_js e (JNum r) = (if safe_integer r then show_int \<lfloor>r\<rfloor> else String_number e r)"
| "String_js e JNaN = ''NaN''"
| "String_js e (JInf b) = (if b then ''Infinity'' else ''-Infinity'')"
| "String_js e (JStr s) = s"
| "String_js e (JOid h) = h"
| "String_js e (JDate t) = Date_string e t"
| "String_js e (JArr xs) =
     intersperse '',''
       (map (\<lambda>x. if x = JNull \<or> x = JUndefined then [] else String_js e x) xs)"
| "String_js e (JObj fs) = ''[object Object]''"

text \<open>White space of \<open>String.prototype.trim\<close> among the code units below 256.\<close>

definition is_space :: "char \<Rightarrow> bool" where
  "is_space c = (of_char c \<in> {9, 10, 11, 12, 13, 32, 160 :: nat})"

definition trim :: "string \<Rightarrow> string" where
  "trim s = rev (dropWhile is_space (rev (dropWhile is_space s)))"

text \<open>\<open>Array.from(new Set(xs))\<close>: the first occurrence of each value, in order.\<close>

fun Set_add :: "'a list \<Rightarrow> 'a list \<Rightarrow> 'a list" where
  "Set_add seen [] = seen"
| "Set_add seen (x # xs) = Set_add (if x \<in> set seen then seen else seen @ [x]) xs"

definition Set_from :: "'a list \<Rightarrow> 'a list" where
  "Set_from xs = Set_add [] xs"

subsection \<open>Numbers\<close>

text \<open>\<open>Number(v)\<close>, the conversion the operator \<open>*\<close> applies to its operands. The
  reading of a string as a number is the runtime's.\<close>

fun ToNumber :: "env \<Rightarrow> json \<Rightarrow> json" where
  "ToNumber e JUndefined = JNaN"
| "ToNumber e JNull = JNum 0"
| "ToNumber e (JBool b) = JNum (if b then 1 else 0)"
| "ToNumber e (JNum r) = JNum r"
| "ToNumber e JNaN = JNaN"
| "ToNumber e (JInf b) = JInf b"
| "ToNumber e (JDate t) = JNum (of_int t)"
| "ToNumber e (JStr s) = Number_string e s"
| "ToNumber e v = Number_string e (String_js e v)"

text \<open>The double that an operation returns for the exact result \<open>r\<close>: \<open>r\<close> itself when
  it is a whole number of magnitude at most \<open>2^53\<close> (such a number is a double, and the
  operations are correctly rounded), and otherwise what the runtime's rounding gives
  (a double near \<open>r\<close>, or an infinity).\<close>

definition to_double :: "env \<Rightarrow> rat \<Rightarrow> json" where
  "to_double e r = (if safe_integer r then JNum r else round_double e r)"

text \<open>\<open>a * b\<close> and \<open>a + b\<close> on two numbers.\<close>

fun number_times :: "env \<Rightarrow> json \<Rightarrow> json \<Rightarrow> json" where
  "number_times e (JNum a) (JNum b) = to_double e (a * b)"
| "number_times e (JNum a) (JInf t) = (if a = 0 then JNaN else JInf (t = (0 < a)))"
| "number_times e (JInf s) (JNum b) = (if b = 0 then JNaN else JInf (s = (0 < b)))"
| "number_times e (JInf s) (JInf t) = JInf (s = t)"
| "number_times e _ _ = JNaN"

fun number_plus :: "env \<Rightarrow> json \<Rightarrow> json \<Rightarrow> json" where
  "number_plus e (JNum a) (JNum b) = to_double e (a + b)"
| "number_plus e (JNum a) (JInf t) = JInf t"
| "number_plus e (JInf s) (JNum b) = JInf s"
| "number_plus e (JInf s) (JInf t) = (if s = t then JInf s else JNaN)"
| "number_plus e _ _ = JNaN"

text \<open>\<open>a * b\<close> on any two values.\<close>

definition js_times :: "env \<Rightarrow> json \<Rightarrow> json \<Rightarrow> json" where
  "js_times e a b = number_times e (ToNumber e a) (ToNumber e b)"

section \<open>The document store\<close>

text \<open>
  The MongoDB driver is a library, not code of this repository; what follows is its
  contract for the calls the handlers make. A collection is the list of its documents
  in insertion order, which is the order in which \<open>findOne\<close> and \<open>updateOne\<close> meet them.
\<close>

text \<open>What the driver writes for a JavaScript value: \<open>undefined\<close> is serialised as
  \<open>null\<close> (the driver's default, \<open>ignoreUndefined: false\<close>).\<close>

primrec bson :: "json \<Rightarrow> json" where
  "bson JUndefined = JNull"
| "bson JNull = JNull"
| "bson (JBool b) = JBool b"
| "bson (JNum n) = JNum n"
| "bson JNaN = JNaN"
| "bson (JInf b) = JInf b"
| "bson (JStr s) = JStr s"
| "bson (JOid h) = JOid h"
| "bson (JDate t) = JDate t"
| "bson (JArr xs) = JArr (map bson xs)"
| "bson (JObj fs) = JObj (map (map_prod id bson) fs)"

text \<open>\<open>new ObjectId(s)\<close> for a string: 24 hexadecimal digits give the identifier,
  anything else throws (\<open>None\<close>); older drivers, which also take a string of 12 bytes,
  are not modelled. \<open>String(oid)\<close> is the lower-case rendering.\<close>

definition is_hex :: "char \<Rightarrow> bool" where
  "is_hex c = (let n = (of_char c :: nat) in
     (48 \<le> n \<and> n \<le> 57) \<or> (65 \<le> n \<and> n \<le> 70) \<or> (97 \<le> n \<and> n \<le> 102))"

definition hex_lower :: "char \<Rightarrow> char" where
  "hex_lower c = (let n = (of_char c :: nat) in
     if 65 \<le> n \<and> n \<le> 70 then char_of (n + 32) else c)"

definition ObjectId :: "string \<Rightarrow> json option" where
  "ObjectId s = (if length s = 24 \<and> list_all is_hex s then Some (JOid (map hex_lower s)) else None)"

text \<open>
  Filters. \<open>Eq path v\<close> is the condition \<open>{ 'a.b': v }\<close> for an operand \<open>v\<close> that is
  not an operator document (an object whose keys start with \<open>$\<close>), \<open>Or\<close> is \<open>$or\<close>, and
  \<open>And\<close> the conjunction of the conditions of one filter object (\<open>And []\<close> is the filter
  \<open>{}\<close>).

  A dotted path is followed through embedded documents and, implicitly, through the
  embedded documents of an array; the paths of this program have no numeric component.
\<close>

datatype query = Eq "string list" json | Or "query list" | And "query list"

fun path_values :: "string list \<Rightarrow> json \<Rightarrow> json list" where
  "path_values [] v = [v]"
| "path_values (k # ks) (JObj fs) =
     (case map_of fs k of None \<Rightarrow> [] | Some v \<Rightarrow> path_values ks v)"
| "path_values (k # ks) (JArr xs) =
     concat (map (\<lambda>x. case x of JObj fs \<Rightarrow> path_values (k # ks) x | _ \<Rightarrow> []) xs)"
| "path_values (k # ks) _ = []"

text \<open>Equality: some value at the path is the operand, or is an array that has the
  operand as an element. The operand \<open>null\<close> also matches a document without the path
  (for a path of several components the model covers the case where the path is absent
  from the whole document).\<close>

definition eq_matches :: "json \<Rightarrow> json list \<Rightarrow> bool" where
  "eq_matches q vs = ((\<exists>v\<in>set vs. v = q \<or> q \<in> set (elements v)) \<or> (q = JNull \<and> vs = []))"

fun matches :: "query \<Rightarrow> json \<Rightarrow> bool" where
  "matches (Eq path q) d = eq_matches q (path_values path d)"
| "matches (Or qs) d = (\<exists>q\<in>set qs. matches q d)"
| "matches (And qs) d = (\<forall>q\<in>set qs. matches q d)"

definition find_docs :: "query \<Rightarrow> json list \<Rightarrow> json list" where
  "find_docs q docs = filter (matches q) docs"

definition findOne :: "query \<Rightarrow> json list \<Rightarrow> json option" where
  "findOne q docs = List.find (matches q) docs"

text \<open>
  \<open>sort({ createdAt: -1 })\<close>. Values are compared in the BSON order: first by type
  (null and missing, numbers with \<open>NaN\<close> below all the others, strings, documents, arrays,
  identifiers, booleans, dates), then by value. Documents and arrays are not compared
  further here, and the order of documents with equal keys is one of those the server
  may produce.
\<close>

fun bson_key :: "json \<Rightarrow> nat \<times> rat \<times> string" where
  "bson_key JUndefined = (1, 0, [])"
| "bson_key JNull = (1, 0, [])"
| "bson_key JNaN = (2, 0, [])"
| "bson_key (JInf b) = (if b then (5, 0, []) else (3, 0, []))"
| "bson_key (JNum r) = (4, r, [])"
| "bson_key (JStr s) = (6, 0, s)"
| "bson_key (JObj fs) = (7, 0, [])"
| "bson_key (JArr xs) = (8, 0, [])"
| "bson_key (JOid h) = (9, 0, h)"
| "bson_key (JBool b) = (10, (if b then 1 else 0), [])"
| "bson_key (JDate t) = (11, of_int t, [])"

definition createdAt_key :: "json \<Rightarrow> nat \<times> rat \<times> string" where
  "createdAt_key d = bson_key (field d ''createdAt'')"

definition sort_createdAt_desc :: "json list \<Rightarrow> json list" where
  "sort_createdAt_desc docs = rev (sort_key createdAt_key docs)"

text \<open>\<open>limit(n)\<close>: zero is no limit, a negative number limits like its absolute value.\<close>

definition limit_docs :: "int \<Rightarrow> json list \<Rightarrow> json list" where
  "limit_docs n docs = (if n = 0 then docs else take (nat \<bar>n\<bar>) docs)"

text \<open>\<open>insertOne\<close>: the driver gives the document a fresh \<open>_id\<close>; the server rejects a
  document that fails the collection's validator or repeats an \<open>_id\<close> (\<open>None\<close>: the call
  throws).\<close>

definition insertOne :: "(json \<Rightarrow> bool) \<Rightarrow> string \<Rightarrow> (string \<times> json) list \<Rightarrow> json list \<Rightarrow> json list option" where
  "insertOne valid oid fs docs =
     (let d = JObj ((''_id'', JOid oid) # map (map_prod id bson) fs)
      in if valid d \<and> (\<forall>x\<in>set docs. field x ''_id'' \<noteq> JOid oid) then Some (docs @ [d]) else None)"

text \<open>\<open>updateOne(filter, { $set: { status } })\<close>: the first matching document gets the
  field; the result is \<open>matchedCount\<close> and the collection, or \<open>None\<close> when the validator
  rejects the updated document.\<close>

fun set_status :: "json \<Rightarrow> json \<Rightarrow> json" where
  "set_status v (JObj fs) = JObj (set_field ''status'' (bson v) fs)"
| "set_status v d = d"

fun update_first :: "query \<Rightarrow> (json \<Rightarrow> json) \<Rightarrow> json list \<Rightarrow> json list" where
  "update_first q f [] = []"
| "update_first q f (d # ds) = (if matches q d then f d # ds else d # update_first q f ds)"

definition updateOne :: "(json \<Rightarrow> bool) \<Rightarrow> query \<Rightarrow> json \<Rightarrow> json list \<Rightarrow> (nat \<times> json list) option" where
  "updateOne valid q v docs =
     (case findOne q docs of
        None \<Rightarrow> Some (0, docs)
      | Some d \<Rightarrow> if valid (set_status v d) then Some (1, update_first q (set_status v) docs) else None)"

section \<open>The server\<close>

text \<open>The state handlers change or leave alone: the two collections they use, and
  the calls made to the verification service (secret and token of each).\<close>

record world =
  orders :: "json list"
  restaurants :: "json list"
  siteverify_calls :: "(json \<times> json) list"

text \<open>What the driver and the clock hand to one order creation: the fresh \<open>_id\<close>,
  \<open>new Date().toISOString()\<close> and \<open>new Date()\<close>.\<close>

record runtime =
  fresh_oid :: string
  now_iso :: string
  now :: int

datatype response = Response (status_code: nat) (payload: json)

definition err :: "nat \<Rightarrow> string \<Rightarrow> response" where
  "err n msg = Response n (JObj [(''error'', JStr msg)])"


text \<open>\<open>getDb\<close> throws without a connection string; otherwise it resolves (the driver's
  own faults are outside the model).\<close>

definition getDb :: "env \<Rightarrow> bool" where
  "getDb e = truthy (mongoUri e)"




definition isSuperAdmin :: "json \<Rightarrow> bool" where
  "isSuperAdmin profile = strict_eq (field profile ''role'') (JStr ''superAdmin'')"

definition isCampusAdmin :: "json \<Rightarrow> bool" where
  "isCampusAdmin profile = strict_eq (field profile ''role'') (JStr ''campusAdmin'')"

definition isRestaurantManager :: "json \<Rightarrow> bool" where
  "isRestaurantManager profile = strict_eq (field profile ''role'') (JStr ''restaurantManager'')"

section \<open>POST /api/orders\<close>

text \<open>The reCAPTCHA block: the service is called when the request has a token and
  the deployment a secret; the request passes when the reply's \<open>data.success\<close> is
  truthy. A failed call and a reply without usable data both end in the 400 reply.\<close>

definition recaptcha_consulted :: "env \<Rightarrow> json \<Rightarrow> bool" where
  "recaptcha_consulted e recaptchaToken = (truthy recaptchaToken \<and> truthy (RECAPTCHA_SECRET_KEY e))"

fun recaptcha_success :: "axios_reply \<Rightarrow> bool" where
  "recaptcha_success AxiosError = False"
| "recaptcha_success (AxiosData d) = truthy (field d ''success'')"

definition recaptcha_passes :: "env \<Rightarrow> json \<Rightarrow> bool" where
  "recaptcha_passes e recaptchaToken =
     (\<not> recaptcha_consulted e recaptchaToken
      \<or> recaptcha_success (siteverify e (RECAPTCHA_SECRET_KEY e) recaptchaToken))"

text \<open>\<open>req.body || {}\<close>.\<close>

definition body_or_empty :: "json \<Rightarrow> json" where
  "body_or_empty req_body = js_or req_body (JObj [])"

text \<open>\<open>JSON.stringify(v)\<close>: \<open>undefined\<close> for \<open>undefined\<close>, a string otherwise.\<close>

definition stringify :: "env \<Rightarrow> json \<Rightarrow> json" where
  "stringify e v = (if v = JUndefined then JUndefined else JStr (JSON_stringify e v))"

definition restaurantNames_entry :: "env \<Rightarrow> json \<Rightarrow> (string \<times> json) list" where
  "restaurantNames_entry e restaurantNames =
     (if isArray restaurantNames \<and> length (elements restaurantNames) > 0
      then [(''restaurantNames'',
             JArr (map JStr (Set_from (filter (\<lambda>s. s \<noteq> [])
                     (map (\<lambda>x. trim (String_js e x)) (elements restaurantNames))))))]
      else [])"

definition orderDoc :: "env \<Rightarrow> runtime \<Rightarrow> json \<Rightarrow> json \<Rightarrow> json \<Rightarrow> (string \<times> json) list" where
  "orderDoc e rt user profile body =
     (let cartItems = field body ''cartItems'' in
      [(''universityId'', js_or (field body ''universityId'') (js_or (field profile ''universityId'') JNull)),
       (''campusId'', field body ''campusId''),
       (''universityName'', js_or (field body ''universityName'') JNull),
       (''campusName'', js_or (field body ''campusName'') JNull),
       (''firstName'', field body ''firstName''),
       (''lastName'', js_or (field body ''lastName'') JNull),
       (''phone'', field body ''phone''),
       (''email'', js_or (field body ''email'') (js_or (field user ''email'') JNull)),
       (''gender'', field body ''gender''),
       (''persons'', nullish (field body ''persons'') JNull),
       (''deliveryCharge'', nullish (field body ''deliveryCharge'') JNull),
       (''itemTotal'', nullish (field body ''itemTotal'') JNull),
       (''grandTotal'', field body ''grandTotal''),
       (''cartItems'', js_or (field body ''cartItemsFormatted'')
                        (case cartItems of JStr s \<Rightarrow> cartItems | _ \<Rightarrow> stringify e cartItems)),
       (''cartItemsArray'', if isArray cartItems then cartItems else JArr [])]
      @ restaurantNames_entry e (field body ''restaurantNames'')
      @ [(''timestamp'', JStr (now_iso rt)),
         (''accountTitle'', js_or (field body ''accountTitle'') JNull),
         (''bankName'', js_or (field body ''bankName'') JNull),
         (''screenshotURL'', js_or (field body ''screenshotURL'') JNull),
         (''specialInstruction'', js_or (field body ''specialInstruction'') JNull),
         (''createdAt'', JDate (now rt)),
         (''status'', JStr ''pending'')])"

definition post_api_orders :: "env \<Rightarrow> runtime \<Rightarrow> json \<Rightarrow> json \<Rightarrow> json \<Rightarrow> world \<Rightarrow> response \<times> world" where
  "post_api_orders e rt req_body user profile w =
     (if \<not> getDb e then (err 500 ''Failed to create order'', w)
      else
        let body = body_or_empty req_body;
            recaptchaToken = field body ''recaptchaToken'';
            w1 = (if recaptcha_consulted e recaptchaToken
                  then w\<lparr>siteverify_calls :=
                         siteverify_calls w @ [(RECAPTCHA_SECRET_KEY e, recaptchaToken)]\<rparr>
                  else w)
        in
        if \<not> recaptcha_passes e recaptchaToken
        then (err 400 ''reCAPTCHA verification failed'', w1)
        else
          let assignedCampusId = field profile ''campusId'';
              campusId = field body ''campusId''
          in
          if \<not> truthy assignedCampusId
          then (err 403 ''No campus assigned to user profile'', w1)
          else if \<not> truthy campusId \<or> \<not> strict_eq campusId assignedCampusId
          then (err 403 ''You can only place orders from your assigned campus. Please switch back to your campus in the navbar.'', w1)
          else if \<not> truthy (field body ''firstName'') \<or> \<not> truthy (field body ''phone'')
                  \<or> \<not> truthy (field body ''gender'') \<or> \<not> truthy (field body ''grandTotal'')
          then (err 400 ''Missing required order fields'', w1)
          else
            (case insertOne (ordersValidator e) (fresh_oid rt) (orderDoc e rt user profile body) (orders w1) of
               None \<Rightarrow> (err 500 ''Failed to create order'', w1)
             | Some docs \<Rightarrow>
                 (Response 201 (JObj [(''id'', JOid (fresh_oid rt))]), w1\<lparr>orders := docs\<rparr>)))"

section \<open>GET /api/orders\<close>

text \<open>A query-string parameter is absent or one plain string. \<open>Number(limit)\<close> with
  the default, as the count that the cursor is given; \<open>None\<close> when the call fails.\<close>

definition limit_number :: "env \<Rightarrow> int \<Rightarrow> string option \<Rightarrow> int option" where
  "limit_number e dflt limit =
     (case limit of
        None \<Rightarrow> Some dflt
      | Some s \<Rightarrow>
         (case Number_string e s of
            JNum r \<Rightarrow> if r = of_int \<lfloor>r\<rfloor> \<and> \<bar>r\<bar> < 2 ^ 63 then Some \<lfloor>r\<rfloor>
                      else odd_limit e (JNum r)
          | v \<Rightarrow> odd_limit e v))"



section \<open>PATCH /api/orders/:id\<close>

text \<open>The dual-ID filter: the identifier read as an \<open>ObjectId\<close>, when it can be, and
  as the plain string.\<close>

definition dual_id :: "string \<Rightarrow> query list" where
  "dual_id ident =
     (case ObjectId ident of None \<Rightarrow> [] | Some oid \<Rightarrow> [Eq [''_id''] oid]) @ [Eq [''_id''] (JStr ident)]"

text \<open>The role-scoped filter; \<open>None\<close> is the final \<open>else\<close>, which answers 403.\<close>

definition update_filter :: "string \<Rightarrow> json \<Rightarrow> query option" where
  "update_filter ident profile =
     (if isCampusAdmin profile
      then Some (And [Or (dual_id ident), Eq [''campusId''] (bson (field profile ''campusId''))])
      else if isRestaurantManager profile
      then Some (And [Or (dual_id ident),
                      Eq [''cartItems'', ''restaurantId''] (bson (field profile ''restaurantId''))])
      else None)"

definition patch_api_orders :: "env \<Rightarrow> string \<Rightarrow> json \<Rightarrow> json \<Rightarrow> json \<Rightarrow> world \<Rightarrow> response \<times> world" where
  "patch_api_orders e ident req_body user profile w =
     (if isSuperAdmin profile
      then (err 403 ''Super admins cannot update order status. Only campus admins and restaurant managers can update orders.'', w)
      else if \<not> getDb e then (err 500 ''Failed to update order'', w)
      else
        let status = field (body_or_empty req_body) ''status'' in
        if \<not> truthy status then (err 400 ''Missing status'', w)
        else
          (case update_filter ident profile of
             None \<Rightarrow> (err 403 ''Unauthorized'', w)
           | Some fltr \<Rightarrow>
              (case updateOne (ordersValidator e) fltr status (orders w) of
                 None \<Rightarrow> (err 500 ''Failed to update order'', w)
               | Some (matchedCount, docs) \<Rightarrow>
                   if matchedCount = 0 then (err 404 ''Order not found'', w\<lparr>orders := docs\<rparr>)
                   else (case findOne fltr docs of
                           None \<Rightarrow> (err 404 ''Order not found after update'', w\<lparr>orders := docs\<rparr>)
                         | Some doc \<Rightarrow> (Response 200 doc, w\<lparr>orders := docs\<rparr>)))))"

section \<open>GET /api/orders/restaurant/:restaurantId\<close>

text \<open>What the listing shows of one order. Reading a property of a \<open>null\<close> line item
  throws (\<open>None\<close>), and the handler then answers 500.\<close>

fun props :: "json \<Rightarrow> (string \<times> json) list" where
  "props (JObj fs) = fs"
| "props _ = []"

definition restaurant_item :: "string \<Rightarrow> json \<Rightarrow> json \<Rightarrow> bool" where
  "restaurant_item restaurantId restaurantName item =
     (strict_eq (field item ''restaurantId'') (JStr restaurantId)
      \<or> strict_eq (field item ''restaurantName'') restaurantName)"

definition items_total :: "env \<Rightarrow> json list \<Rightarrow> json" where
  "items_total e items =
     fold (\<lambda>item sum. number_plus e sum (js_times e (field item ''price'') (field item ''quantity'')))
       items (JNum 0)"

definition filtered_order :: "env \<Rightarrow> string \<Rightarrow> json \<Rightarrow> json \<Rightarrow> json option" where
  "filtered_order e restaurantId restaurantName order =
     (let cartItemsArray = field order ''cartItemsArray'' in
      if isArray cartItemsArray \<and> length (elements cartItemsArray) > 0
      then
        if JNull \<in> set (elements cartItemsArray) \<or> JUndefined \<in> set (elements cartItemsArray)
        then None
        else
          let restaurantItems = filter (restaurant_item restaurantId restaurantName) (elements cartItemsArray)
          in Some (JObj (set_field ''itemsTotal'' (items_total e restaurantItems)
                          (set_field ''cartItems'' (JArr restaurantItems) (props order))))
      else Some (JObj (set_field ''itemsTotal'' (js_or (field order ''itemTotal'') (JNum 0))
                        (set_field ''cartItems'' (field order ''cartItems'') (props order)))))"

fun all_some :: "'a option list \<Rightarrow> 'a list option" where
  "all_some [] = Some []"
| "all_some (None # xs) = None"
| "all_some (Some x # xs) = (case all_some xs of None \<Rightarrow> None | Some ys \<Rightarrow> Some (x # ys))"

definition restaurant_orders_filter :: "string \<Rightarrow> json \<Rightarrow> query" where
  "restaurant_orders_filter restaurantId restaurantName =
     Or [Eq [''cartItemsArray'', ''restaurantId''] (JStr restaurantId),
         Eq [''restaurantNames''] (bson restaurantName)]"

definition get_api_orders_restaurant :: "env \<Rightarrow> string \<Rightarrow> string option \<Rightarrow> json \<Rightarrow> json \<Rightarrow> world \<Rightarrow> response \<times> world" where
  "get_api_orders_restaurant e restaurantId limit user profile w =
     (if \<not> isRestaurantManager profile then (err 403 ''Restaurant manager only'', w)
      else if \<not> strict_eq (field profile ''restaurantId'') (JStr restaurantId)
      then (err 403 ''You can only access orders for your assigned restaurant'', w)
      else if \<not> getDb e then (err 500 ''Failed to fetch orders'', w)
      else
        (case findOne (Or (dual_id restaurantId)) (restaurants w) of
           None \<Rightarrow> (err 404 ''Restaurant not found'', w)
         | Some restaurant \<Rightarrow>
            (let restaurantName = field restaurant ''name'' in
             case limit_number e 1000 limit of
               None \<Rightarrow> (err 500 ''Failed to fetch orders'', w)
             | Some n \<Rightarrow>
                (case all_some (map (filtered_order e restaurantId restaurantName)
                        (limit_docs n (sort_createdAt_desc
                           (find_docs (restaurant_orders_filter restaurantId restaurantName) (orders w))))) of
                   None \<Rightarrow> (err 500 ''Failed to fetch orders'', w)
                 | Some filteredOrders \<Rightarrow> (Response 200 (JArr filteredOrders), w)))))"

section \<open>A deployment for the examples\<close>

text \<open>Instances of the runtime's functions, enough for the examples, whose numbers are
  whole and small and which print no date: unsigned decimal numerals, the digits of a
  whole number, no rounding, the JSON text of a parsed body with plain ASCII strings,
  and a cursor that fails on a limit that is not a whole number.\<close>

definition decimal :: "string \<Rightarrow> json" where
  "decimal s =
     (if list_all (\<lambda>c. 48 \<le> (of_char c :: nat) \<and> (of_char c :: nat) \<le> 57) s
      then JNum (of_int (foldl (\<lambda>n c. 10 * n + (int (of_char c) - 48)) 0 s))
      else JNaN)"

definition whole_digits :: "rat \<Rightarrow> string" where
  "whole_digits r = show_int \<lfloor>r\<rfloor>"

definition quoted :: "string \<Rightarrow> string" where
  "quoted s =
     CHR 0x22 # concat (map (\<lambda>c. if c = CHR 0x22 \<or> c = CHR 0x5C then [CHR 0x5C, c] else [c]) s)
       @ [CHR 0x22]"

fun json_text :: "json \<Rightarrow> string" where
  "json_text (JBool b) = (if b then ''true'' else ''false'')"
| "json_text (JNum r) = show_int \<lfloor>r\<rfloor>"
| "json_text (JStr s) = quoted s"
| "json_text (JOid h) = quoted h"
| "json_text (JArr xs) = ''['' @ intersperse '','' (map json_text xs) @ '']''"
| "json_text (JObj fs) =
     ''{'' @ intersperse '','' (map (\<lambda>kv. quoted (fst kv) @ '':'' @ json_text (snd kv)) fs) @ ''}''"
| "json_text _ = ''null''"

definition human_only :: "json \<Rightarrow> json \<Rightarrow> axios_reply" where
  "human_only secret token =
     (if secret = JStr ''s3cret'' \<and> token = JStr ''human''
      then AxiosData (JObj [(''success'', JBool True)])
      else AxiosData (JObj [(''success'', JBool False), (''error-codes'', JArr [JStr ''invalid-input-response''])]))"

definition admin_c1 :: json where
  "admin_c1 = JObj [(''role'', JStr ''campusAdmin''), (''campusId'', JStr ''c1'')]"

definition student_c1 :: json where
  "student_c1 = JObj [(''role'', JStr ''user''), (''campusId'', JStr ''c1'')]"

definition manager_r1 :: json where
  "manager_r1 = JObj [(''role'', JStr ''restaurantManager''), (''campusId'', JStr ''c1''),
                      (''restaurantId'', JStr ''r1'')]"

definition root_admin :: json where
  "root_admin = JObj [(''role'', JStr ''superAdmin'')]"

definition accounts :: "json \<Rightarrow> firestore_read" where
  "accounts uid =
     (if uid = JStr ''u-admin'' then Doc admin_c1
      else if uid = JStr ''u-student'' then Doc student_c1
      else if uid = JStr ''u-manager'' then Doc manager_r1
      else if uid = JStr ''u-root'' then Doc root_admin
      else NoDoc)"

definition tokens :: "string \<Rightarrow> json option" where
  "tokens t =
     (if t = ''t-admin'' then Some (JObj [(''uid'', JStr ''u-admin'')])
      else if t = ''t-student'' then Some (JObj [(''uid'', JStr ''u-student''), (''email'', JStr ''s@uni.pk'')])
      else if t = ''t-manager'' then Some (JObj [(''uid'', JStr ''u-manager'')])
      else if t = ''t-root'' then Some (JObj [(''uid'', JStr ''u-root'')])
      else None)"

definition deployment :: env where
  "deployment =
     \<lparr> RECAPTCHA_SECRET_KEY = JStr ''s3cret'', mongoUri = JStr ''mongodb://db'',
       verifyIdToken = tokens, firestore = Some accounts, siteverify = human_only,
       ordersValidator = (\<lambda>d. True), Number_string = decimal, String_number = whole_digits,
       Date_string = show_int, round_double = JNum, JSON_stringify = json_text,
       odd_limit = (\<lambda>v. None) \<rparr>"

definition student :: json where
  "student = JObj [(''uid'', JStr ''u-student''), (''email'', JStr ''s@uni.pk'')]"

definition clock1 :: runtime where
  "clock1 = \<lparr> fresh_oid = ''65a000000000000000000001'', now_iso = ''2024-01-11T10:00:00.000Z'',
              now = 1704967200000 \<rparr>"

definition burger :: json where
  "burger = JObj [(''name'', JStr ''Burger''), (''restaurantId'', JStr ''r1''),
                  (''restaurantName'', JStr ''Grill''), (''price'', JNum 450), (''quantity'', JNum 2)]"

definition chai :: json where
  "chai = JObj [(''name'', JStr ''Chai''), (''restaurantId'', JStr ''r2''),
                (''restaurantName'', JStr ''Dhaba''), (''price'', JNum 60), (''quantity'', JNum 3)]"

definition order_body :: json where
  "order_body =
     JObj [(''universityName'', JStr ''Uni''), (''campusName'', JStr ''Main''), (''campusId'', JStr ''c1''),
           (''firstName'', JStr ''Ali''), (''phone'', JStr ''03001234567''), (''gender'', JStr ''male''),
           (''persons'', JNum 1), (''deliveryCharge'', JNum 150), (''itemTotal'', JNum 1080),
           (''grandTotal'', JNum 1230), (''cartItems'', JArr [burger, chai])]"

definition empty_world :: world where
  "empty_world = \<lparr> orders = [], restaurants = [], siteverify_calls = [] \<rparr>"

definition body_c2 :: json where
  "body_c2 =
     JObj [(''campusId'', JStr ''c2''), (''firstName'', JStr ''Ali''), (''phone'', JStr ''03001234567''),
           (''gender'', JStr ''male''), (''grandTotal'', JNum 1230), (''cartItems'', JStr ''1x Burger'')]"

definition bot_body_c2 :: json where
  "bot_body_c2 =
     JObj [(''campusId'', JStr ''c2''), (''firstName'', JStr ''Ali''), (''phone'', JStr ''03001234567''),
           (''gender'', JStr ''male''), (''grandTotal'', JNum 1230), (''cartItems'', JStr ''1x Burger''),
           (''recaptchaToken'', JStr ''bot'')]"

definition bot_body_c1 :: json where
  "bot_body_c1 =
     JObj [(''campusId'', JStr ''c1''), (''firstName'', JStr ''Ali''), (''phone'', JStr ''03001234567''),
           (''gender'', JStr ''male''), (''grandTotal'', JNum 1230), (''cartItems'', JStr ''1x Burger''),
           (''recaptchaToken'', JStr ''bot'')]"

definition no_gender_body :: json where
  "no_gender_body =
     JObj [(''campusId'', JStr ''c1''), (''firstName'', JStr ''Ali''), (''phone'', JStr ''03001234567''),
           (''grandTotal'', JNum 1230), (''cartItems'', JStr ''1x Burger'')]"

definition no_secret :: env where
  "no_secret = deployment\<lparr>RECAPTCHA_SECRET_KEY := JUndefined\<rparr>"

definition order_a :: json where
  "order_a =
     JObj [(''_id'', JOid ''65a00000000000000000000a''), (''campusId'', JStr ''c1''),
           (''firstName'', JStr ''Ali''), (''cartItems'', JStr ''2x Burger''),
           (''cartItemsArray'', JArr [burger]), (''createdAt'', JDate 1704960000000),
           (''status'', JStr ''pending'')]"

definition order_b :: json where
  "order_b =
     JObj [(''_id'', JStr ''legacy-17''), (''campusId'', JStr ''c1''), (''firstName'', JStr ''Sara''),
           (''cartItems'', JStr ''3x Chai''), (''itemTotal'', JNum 180),
           (''createdAt'', JDate 1704963600000), (''status'', JStr ''delivered'')]"

definition order_c :: json where
  "order_c =
     JObj [(''_id'', JOid ''65a00000000000000000000c''), (''campusId'', JStr ''c2''),
           (''firstName'', JStr ''Omar''), (''cartItems'', JStr ''1x Chai''),
           (''cartItemsArray'', JArr [chai]), (''createdAt'', JDate 1704965400000),
           (''status'', JStr ''pending'')]"

definition grill :: json where
  "grill = JObj [(''_id'', JStr ''r1''), (''name'', JStr ''Grill''), (''campusId'', JStr ''c1'')]"

definition campus_world :: world where
  "campus_world = \<lparr> orders = [order_a, order_b, order_c], restaurants = [grill], siteverify_calls = [] \<rparr>"

definition blank_names_body :: json where
  "blank_names_body =
     JObj [(''campusId'', JStr ''c1''), (''firstName'', JStr ''Ali''), (''phone'', JStr ''03001234567''),
           (''gender'', JStr ''male''), (''grandTotal'', JNum 1230), (''cartItems'', JStr ''1x Burger''),
           (''restaurantNames'', JArr [JStr '' ''])]"

definition kitchen :: world where
  "kitchen = \<lparr> orders = [], restaurants = [grill], siteverify_calls = [] \<rparr>"

definition placed :: world where
  "placed = snd (post_api_orders deployment clock1 order_body student student_c1 kitchen)"

definition manager :: json where
  "manager = JObj [(''uid'', JStr ''u-manager''), (''email'', JNull)]"

definition accept :: json where
  "accept = JObj [(''status'', JStr ''accepted'')]"





section \<open>Notions used in the statements\<close>














section \<open>Auxiliary facts\<close>

lemmas example_defs =
  deployment_def no_secret_def clock1_def student_def student_c1_def admin_c1_def manager_r1_def
  root_admin_def empty_world_def order_body_def body_c2_def bot_body_c2_def bot_body_c1_def
  no_gender_body_def burger_def chai_def human_only_def

lemmas post_defs =
  post_api_orders_def getDb_def body_or_empty_def js_or_def nullish_def recaptcha_passes_def
  recaptcha_consulted_def insertOne_def orderDoc_def restaurantNames_entry_def stringify_def
  Let_def err_def

lemma strict_eq_same: "strict_eq a b \<Longrightarrow> a = b"
  by (cases a; cases b) auto

lemma strict_eq_bson: "strict_eq a b \<Longrightarrow> truthy a \<Longrightarrow> bson a = a"
  by (cases a; cases b) auto

lemma insertOne_appends:
  "insertOne valid oid fs docs = Some docs' \<Longrightarrow>
     docs' = docs @ [JObj ((''_id'', JOid oid) # map (map_prod id bson) fs)]"
  by (auto simp: insertOne_def Let_def split: if_splits)


lemma stored_campusId:
  "field (JObj ((''_id'', x) # map (map_prod id bson) (orderDoc e rt user profile body))) ''campusId''
     = bson (field body ''campusId'')"
  by (simp add: orderDoc_def Let_def)

















text \<open>The restaurant manager's condition of the update filter holds of no order whose
  \<open>cartItems\<close> is a string.\<close>

lemma string_cart_never_matches:
  "field d ''cartItems'' = JStr s \<Longrightarrow> \<not> matches (Eq [''cartItems'', ''restaurantId''] (JStr r)) d"
  by (cases d) (auto simp: eq_matches_def split: option.splits)
































section \<open>Order creation: the campus rule\<close>

text \<open>
  Claim C1, as the code has it. A request whose profile has no campus, or whose
  \<open>campusId\<close> is missing or is not the profile's, never inserts an order. It is
  answered 403 when it reaches the campus check, that is when the connection string is
  set and the reCAPTCHA block was skipped or passed; a request that fails the reCAPTCHA
  block is answered 400 before the campus is looked at. Every reply other than 201
  leaves the collection as it was, and a 201 appends one document whose \<open>campusId\<close> is
  the profile's.
\<close>

theorem post_orders_campus_enforced:
  assumes "post_api_orders e rt req_body user profile w = (r, w')"
  shows "((\<not> truthy (field profile ''campusId'')
           \<or> \<not> truthy (field (body_or_empty req_body) ''campusId'')
           \<or> \<not> strict_eq (field (body_or_empty req_body) ''campusId'') (field profile ''campusId''))
          \<longrightarrow> orders w' = orders w
              \<and> (getDb e \<and> recaptcha_passes e (field (body_or_empty req_body) ''recaptchaToken'')
                   \<longrightarrow> status_code r = 403)
              \<and> (getDb e \<and> \<not> recaptcha_passes e (field (body_or_empty req_body) ''recaptchaToken'')
                   \<longrightarrow> status_code r = 400))
       \<and> (status_code r \<noteq> 201 \<longrightarrow> orders w' = orders w)
       \<and> (status_code r = 201 \<longrightarrow>
            (\<exists>d. orders w' = orders w @ [d] \<and> field d ''campusId'' = field profile ''campusId''))"
  using assms
  by (auto simp: post_api_orders_def Let_def err_def stored_campusId strict_eq_bson
           simp del: field.simps
           dest!: insertOne_appends dest: strict_eq_same split: if_splits option.splits)

text \<open>The theorem at three requests of a student of campus \<open>c1\<close>: an order for
  campus \<open>c2\<close> (403), the same with a token the service refuses (400), and an order for
  \<open>c1\<close> (201, stored with \<open>campusId\<close> \<open>c1\<close>).\<close>

theorem post_orders_campus_enforced_witness:
  "\<not> strict_eq (field (body_or_empty body_c2) ''campusId'') (field student_c1 ''campusId'')
   \<and> getDb deployment
   \<and> recaptcha_passes deployment (field (body_or_empty body_c2) ''recaptchaToken'')
   \<and> status_code (fst (post_api_orders deployment clock1 body_c2 student student_c1 empty_world)) = 403
   \<and> orders (snd (post_api_orders deployment clock1 body_c2 student student_c1 empty_world)) = []
   \<and> \<not> recaptcha_passes deployment (field (body_or_empty bot_body_c2) ''recaptchaToken'')
   \<and> status_code (fst (post_api_orders deployment clock1 bot_body_c2 student student_c1 empty_world)) = 400
   \<and> status_code (fst (post_api_orders deployment clock1 order_body student student_c1 empty_world)) = 201
   \<and> (\<exists>d. orders (snd (post_api_orders deployment clock1 order_body student student_c1 empty_world)) = [d]
          \<and> field d ''campusId'' = JStr ''c1'')"
proof -
  have a: "post_api_orders deployment clock1 body_c2 student student_c1 empty_world
             = (err 403 ''You can only place orders from your assigned campus. Please switch back to your campus in the navbar.'', empty_world)"
    by (simp add: post_defs example_defs)
  have b: "post_api_orders deployment clock1 bot_body_c2 student student_c1 empty_world
             = (err 400 ''reCAPTCHA verification failed'',
                empty_world\<lparr>siteverify_calls := [(JStr ''s3cret'', JStr ''bot'')]\<rparr>)"
    by (simp add: post_defs example_defs)
  obtain r w' where c: "post_api_orders deployment clock1 order_body student student_c1 empty_world = (r, w')"
    and r: "status_code r = 201"
    by (simp add: post_defs example_defs)
  from post_orders_campus_enforced [OF a] post_orders_campus_enforced [OF b]
       post_orders_campus_enforced [OF c] r
  show ?thesis
    unfolding a b c
    by (simp add: err_def body_or_empty_def js_or_def getDb_def recaptcha_passes_def
          recaptcha_consulted_def example_defs)
qed

text \<open>Claim C1 as it is worded does not hold: a student of campus \<open>c1\<close> who orders
  for campus \<open>c2\<close> with a token that the verification service refuses is answered 400,
  not 403.\<close>

theorem campus_mismatch_behind_failed_gate:
  "\<not> strict_eq (field (body_or_empty bot_body_c2) ''campusId'') (field student_c1 ''campusId'')
   \<and> status_code (fst (post_api_orders deployment clock1 bot_body_c2 student student_c1 empty_world)) = 400"
  by (simp add: post_defs example_defs)

section \<open>Status update: the super admin\<close>

text \<open>
  Claim C2. A status update by a profile whose role is \<open>superAdmin\<close> is answered 403
  whatever the identifier, the body, the environment and the stored orders are, and
  the collections and the log of verification calls are exactly as before.
\<close>

theorem superAdmin_cannot_patch:
  assumes "field profile ''role'' = JStr ''superAdmin''"
  shows "status_code (fst (patch_api_orders e ident req_body user profile w)) = 403
       \<and> snd (patch_api_orders e ident req_body user profile w) = w"
  using assms by (simp add: patch_api_orders_def isSuperAdmin_def err_def)

text \<open>The theorem for the super admin and an order that exists.\<close>

theorem superAdmin_cannot_patch_witness:
  "field root_admin ''role'' = JStr ''superAdmin''
   \<and> order_b \<in> set (orders campus_world) \<and> field order_b ''_id'' = JStr ''legacy-17''
   \<and> status_code (fst (patch_api_orders deployment ''legacy-17'' (JObj [(''status'', JStr ''accepted'')])
                         student root_admin campus_world)) = 403
   \<and> snd (patch_api_orders deployment ''legacy-17'' (JObj [(''status'', JStr ''accepted'')])
             student root_admin campus_world) = campus_world"
proof -
  have role: "field root_admin ''role'' = JStr ''superAdmin''"
    by (simp add: root_admin_def)
  from superAdmin_cannot_patch [OF role] role show ?thesis
    by (simp add: campus_world_def order_b_def)
qed

section \<open>Order creation: human verification\<close>

text \<open>
  Claim C4, as the code has it. With the connection string set, the verification
  service is called exactly when the request carries a non-empty token and a secret is
  configured, and then once, with that secret and token; in every other case the block
  is skipped and never answers. When the service is called and fails, or reports no
  success, the request is answered 400 and nothing is stored.
\<close>

theorem recaptcha_gate_policy:
  assumes "getDb e"
    and "post_api_orders e rt req_body user profile w = (r, w')"
  shows "(truthy (field (body_or_empty req_body) ''recaptchaToken'') \<and> truthy (RECAPTCHA_SECRET_KEY e)
            \<longrightarrow> siteverify_calls w' =
                  siteverify_calls w @ [(RECAPTCHA_SECRET_KEY e, field (body_or_empty req_body) ''recaptchaToken'')])
       \<and> (\<not> (truthy (field (body_or_empty req_body) ''recaptchaToken'') \<and> truthy (RECAPTCHA_SECRET_KEY e))
            \<longrightarrow> siteverify_calls w' = siteverify_calls w
                \<and> r \<noteq> err 400 ''reCAPTCHA verification failed'')
       \<and> (truthy (field (body_or_empty req_body) ''recaptchaToken'') \<and> truthy (RECAPTCHA_SECRET_KEY e)
           \<and> \<not> recaptcha_success (siteverify e (RECAPTCHA_SECRET_KEY e) (field (body_or_empty req_body) ''recaptchaToken''))
            \<longrightarrow> r = err 400 ''reCAPTCHA verification failed'' \<and> orders w' = orders w)"
  using assms
  by (auto simp: post_api_orders_def Let_def err_def recaptcha_passes_def recaptcha_consulted_def
           simp del: field.simps split: if_splits option.splits)

text \<open>The theorem at a request with a refused token (the service is called, 400) and
  at a request without a token (no call, the order is created).\<close>

theorem recaptcha_gate_policy_witness:
  "getDb deployment \<and> truthy (RECAPTCHA_SECRET_KEY deployment)
   \<and> truthy (field (body_or_empty bot_body_c1) ''recaptchaToken'')
   \<and> \<not> recaptcha_success (siteverify deployment (RECAPTCHA_SECRET_KEY deployment)
                             (field (body_or_empty bot_body_c1) ''recaptchaToken''))
   \<and> post_api_orders deployment clock1 bot_body_c1 student student_c1 empty_world
       = (err 400 ''reCAPTCHA verification failed'',
          empty_world\<lparr>siteverify_calls := [(JStr ''s3cret'', JStr ''bot'')]\<rparr>)
   \<and> \<not> truthy (field (body_or_empty order_body) ''recaptchaToken'')
   \<and> siteverify_calls (snd (post_api_orders deployment clock1 order_body student student_c1 empty_world)) = []
   \<and> status_code (fst (post_api_orders deployment clock1 order_body student student_c1 empty_world)) = 201"
proof -
  have db: "getDb deployment"
    by (simp add: getDb_def deployment_def)
  have a: "post_api_orders deployment clock1 bot_body_c1 student student_c1 empty_world
             = (err 400 ''reCAPTCHA verification failed'',
                empty_world\<lparr>siteverify_calls := [(JStr ''s3cret'', JStr ''bot'')]\<rparr>)"
    by (simp add: post_defs example_defs)
  obtain r w' where b: "post_api_orders deployment clock1 order_body student student_c1 empty_world = (r, w')"
    and r: "status_code r = 201"
    by (simp add: post_defs example_defs)
  from recaptcha_gate_policy [OF db a] recaptcha_gate_policy [OF db b] r db
  show ?thesis
    unfolding a b
    by (simp add: body_or_empty_def js_or_def example_defs)
qed

text \<open>Claim C4 as it is worded does not hold: with no secret configured, a request
  that carries a token (one the service would refuse) is not verified at all, and the
  order is stored.\<close>

theorem token_without_secret_skips_gate:
  "truthy (field (body_or_empty bot_body_c1) ''recaptchaToken'')
   \<and> \<not> recaptcha_success (siteverify no_secret (JStr ''s3cret'') (field (body_or_empty bot_body_c1) ''recaptchaToken''))
   \<and> siteverify_calls (snd (post_api_orders no_secret clock1 bot_body_c1 student student_c1 empty_world)) = []
   \<and> status_code (fst (post_api_orders no_secret clock1 bot_body_c1 student student_c1 empty_world)) = 201
   \<and> length (orders (snd (post_api_orders no_secret clock1 bot_body_c1 student student_c1 empty_world))) = 1"
  by (simp add: post_defs example_defs)

section \<open>Order creation: required fields\<close>

text \<open>
  Claim C5. A request that gets past the campus check (the connection string is set,
  the reCAPTCHA block was skipped or passed, the profile has a campus and the request
  names that campus) and lacks \<open>firstName\<close>, \<open>phone\<close>, \<open>gender\<close> or \<open>grandTotal\<close> is
  answered 400 and stores nothing.
\<close>

theorem missing_required_field_rejected:
  assumes "getDb e"
    and "recaptcha_passes e (field (body_or_empty req_body) ''recaptchaToken'')"
    and "truthy (field profile ''campusId'')"
    and "truthy (field (body_or_empty req_body) ''campusId'')"
    and "strict_eq (field (body_or_empty req_body) ''campusId'') (field profile ''campusId'')"
    and "field (body_or_empty req_body) ''firstName'' = JUndefined
       \<or> field (body_or_empty req_body) ''phone'' = JUndefined
       \<or> field (body_or_empty req_body) ''gender'' = JUndefined
       \<or> field (body_or_empty req_body) ''grandTotal'' = JUndefined"
  shows "fst (post_api_orders e rt req_body user profile w) = err 400 ''Missing required order fields''
       \<and> orders (snd (post_api_orders e rt req_body user profile w)) = orders w"
  using assms
  by (auto simp: post_api_orders_def Let_def simp del: field.simps)

text \<open>The theorem at an order without \<open>gender\<close>.\<close>

theorem missing_required_field_rejected_witness:
  "getDb deployment
   \<and> recaptcha_passes deployment (field (body_or_empty no_gender_body) ''recaptchaToken'')
   \<and> strict_eq (field (body_or_empty no_gender_body) ''campusId'') (field student_c1 ''campusId'')
   \<and> field (body_or_empty no_gender_body) ''gender'' = JUndefined
   \<and> status_code (fst (post_api_orders deployment clock1 no_gender_body student student_c1 campus_world)) = 400
   \<and> orders (snd (post_api_orders deployment clock1 no_gender_body student student_c1 campus_world))
       = orders campus_world"
proof -
  have h: "getDb deployment"
      "recaptcha_passes deployment (field (body_or_empty no_gender_body) ''recaptchaToken'')"
      "truthy (field student_c1 ''campusId'')"
      "truthy (field (body_or_empty no_gender_body) ''campusId'')"
      "strict_eq (field (body_or_empty no_gender_body) ''campusId'') (field student_c1 ''campusId'')"
      "field (body_or_empty no_gender_body) ''firstName'' = JUndefined
       \<or> field (body_or_empty no_gender_body) ''phone'' = JUndefined
       \<or> field (body_or_empty no_gender_body) ''gender'' = JUndefined
       \<or> field (body_or_empty no_gender_body) ''grandTotal'' = JUndefined"
      "field (body_or_empty no_gender_body) ''gender'' = JUndefined"
    by (simp_all add: getDb_def recaptcha_passes_def recaptcha_consulted_def body_or_empty_def
          js_or_def example_defs)
  from missing_required_field_rejected [OF h(1-6), where rt = clock1 and user = student and w = campus_world] h
  show ?thesis
    by (simp add: err_def)
qed

section \<open>Order creation: the restaurant names\<close>

text \<open>
  Claim C9 at one order. The order names its restaurants by the list of the single
  blank name \<open>" "\<close>. It is created, and its document has the field \<open>restaurantNames\<close>
  with the empty array as value, which the claim says is never stored: the handler
  leaves the field out when the supplied list is empty, and tests this before the blank
  names are dropped.
\<close>

theorem blank_names_store_empty_array:
  "status_code (fst (post_api_orders deployment clock1 blank_names_body student student_c1 empty_world)) = 201
   \<and> (\<exists>d. orders (snd (post_api_orders deployment clock1 blank_names_body student student_c1 empty_world)) = [d]
          \<and> field d ''restaurantNames'' = JArr [])"
  by (simp add: post_defs example_defs blank_names_body_def trim_def is_space_def Set_from_def)

text \<open>The same order, seen from the collection: one document, which has the field.\<close>

theorem blank_names_store_empty_array_witness:
  "length (orders (snd (post_api_orders deployment clock1 blank_names_body student student_c1 empty_world))) = 1
   \<and> map (\<lambda>d. field d ''restaurantNames'')
        (orders (snd (post_api_orders deployment clock1 blank_names_body student student_c1 empty_world)))
       = [JArr []]"
  using blank_names_store_empty_array by auto

section \<open>Status update: the two readings of the identifier\<close>




section \<open>Status update: the restaurant manager\<close>

text \<open>
  Claim C3 at one order. A student's order with the structured cart of a burger of
  restaurant \<open>r1\<close> and a chai of \<open>r2\<close> is created; the manager of \<open>r1\<close> then asks to
  set its status and is answered 404, though the restaurant listing for \<open>r1\<close> shows the
  order to the same manager. The update filter reads \<open>cartItems.restaurantId\<close>, and
  \<open>cartItems\<close> holds the string form; the line items are under \<open>cartItemsArray\<close>.
\<close>

theorem manager_cannot_patch_own_order:
  "post_api_orders deployment clock1 order_body student student_c1 kitchen
     = (Response 201 (JObj [(''id'', JOid ''65a000000000000000000001'')]), placed)
   \<and> map (\<lambda>d. (field d ''_id'', field d ''cartItemsArray'')) (orders placed)
       = [(JOid ''65a000000000000000000001'', JArr [burger, chai])]
   \<and> isRestaurantManager manager_r1
   \<and> field burger ''restaurantId'' = field manager_r1 ''restaurantId''
   \<and> patch_api_orders deployment ''65a000000000000000000001'' accept manager manager_r1 placed
       = (err 404 ''Order not found'', placed)
   \<and> status_code (fst (get_api_orders_restaurant deployment ''r1'' None manager manager_r1 placed)) = 200
   \<and> map (\<lambda>x. field x ''_id'')
        (elements (payload (fst (get_api_orders_restaurant deployment ''r1'' None manager manager_r1 placed))))
       = [JOid ''65a000000000000000000001'']"
  by code_simp

text \<open>The reply and the state of that update, read off the evaluation.\<close>

theorem manager_cannot_patch_own_order_witness:
  "status_code (fst (patch_api_orders deployment ''65a000000000000000000001'' accept manager manager_r1 placed)) = 404
   \<and> snd (patch_api_orders deployment ''65a000000000000000000001'' accept manager manager_r1 placed) = placed"
  using manager_cannot_patch_own_order by (simp add: err_def)

section \<open>Listing orders: the campus scope\<close>




section \<open>Listing orders: every recognised role\<close>




section \<open>The restaurant listing: an order's round trip\<close>




end
